theory Spec2Isabelle
  imports Main "HOL-Library.Word"
begin

text \<open>
  The upload handler of the web application, \<open>POST\<close> in
  \<open>src/app/api/extract-text/route.ts\<close>, with its two stages \<open>extractTextFromFile\<close> and
  \<open>preprocessText\<close>. The handler is a function of the request, of the host it runs on and
  of the files of the host; it returns the response, the files it leaves behind and the
  calls it has made on the host.
\<close>

section \<open>Strings\<close>

text \<open>
  JavaScript strings are modelled as \<open>string\<close>; a \<open>char\<close> stands for a code unit below
  256. \<open>String.prototype.trim\<close> removes white space and line terminators from both ends;
  below 256 these are TAB, LF, VT, FF, CR, SPACE and NBSP.
\<close>

definition isWhiteSpace :: "char \<Rightarrow> bool" where
  "isWhiteSpace c =
     (c \<in> set [CHR 0x09, CHR 0x0A, CHR 0x0B, CHR 0x0C, CHR 0x0D, CHR 0x20, CHR 0xA0])"

definition trim :: "string \<Rightarrow> string" where
  "trim s = rev (dropWhile isWhiteSpace (rev (dropWhile isWhiteSpace s)))"

text \<open>
  The template literal \<^verbatim>\<open>`temp_${Date.now()}_${file.name}`\<close> converts the number to
  its decimal numeral. \<open>Date.now()\<close> is integer valued.
\<close>

definition digit_char :: "nat \<Rightarrow> char" where
  "digit_char d = ''0123456789'' ! d"

fun decimal :: "nat \<Rightarrow> string" where
  "decimal n =
     (if n < 10 then [digit_char n] else decimal (n div 10) @ [digit_char (n mod 10)])"

declare decimal.simps [simp del]

definition number_toString :: "int \<Rightarrow> string" where
  "number_toString i = (if i < 0 then CHR ''-'' # decimal (nat (- i)) else decimal (nat i))"

section \<open>Paths\<close>

text \<open>
  \<open>join\<close> is \<open>path.join\<close> of Node.js on a POSIX host: the non-empty arguments are
  concatenated with \<open>/\<close> and the result is normalised. Normalisation drops empty and
  \<open>.\<close> segments and lets a \<open>..\<close> segment cancel the segment before it; above the root of
  an absolute path \<open>..\<close> is dropped, in a relative path it is kept.
\<close>

fun split_slash :: "string \<Rightarrow> string list" where
  "split_slash [] = [[]]"
| "split_slash (c # cs) =
     (if c = CHR ''/'' then [] # split_slash cs
      else (case split_slash cs of
              [] \<Rightarrow> [[c]]
            | s # ss \<Rightarrow> (c # s) # ss))"

text \<open>The accumulator holds the segments kept so far, the last one first.\<close>

fun normalizeString :: "bool \<Rightarrow> string list \<Rightarrow> string list \<Rightarrow> string list" where
  "normalizeString allowAboveRoot res [] = rev res"
| "normalizeString allowAboveRoot res (seg # segs) =
     (if seg = [] \<or> seg = ''.'' then normalizeString allowAboveRoot res segs
      else if seg = ''..'' then
        (if res \<noteq> [] \<and> hd res \<noteq> ''..'' then normalizeString allowAboveRoot (tl res) segs
         else if allowAboveRoot then normalizeString allowAboveRoot (''..'' # res) segs
         else normalizeString allowAboveRoot res segs)
      else normalizeString allowAboveRoot (seg # res) segs)"

fun intercalate_slash :: "string list \<Rightarrow> string" where
  "intercalate_slash [] = []"
| "intercalate_slash [s] = s"
| "intercalate_slash (s # t # ss) = s @ CHR ''/'' # intercalate_slash (t # ss)"

definition normalize :: "string \<Rightarrow> string" where
  "normalize path =
     (if path = [] then ''.''
      else
        let isAbsolute = (hd path = CHR ''/'');
            trailingSeparator = (last path = CHR ''/'');
            p = intercalate_slash (normalizeString (\<not> isAbsolute) [] (split_slash path))
        in if p = [] then (if isAbsolute then ''/'' else if trailingSeparator then ''./'' else ''.'')
           else (if isAbsolute then ''/'' else []) @ p @ (if trailingSeparator then ''/'' else []))"

definition join :: "string list \<Rightarrow> string" where
  "join args =
     (case filter (\<lambda>a. a \<noteq> []) args of
        [] \<Rightarrow> ''.''
      | a # as \<Rightarrow> normalize (intercalate_slash (a # as)))"

section \<open>The request and its environment\<close>

type_synonym bytes = "8 word list"

text \<open>
  A \<open>File\<close> of the form data: \<open>file.name\<close>, \<open>file.type\<close>, \<open>file.size\<close> and its bytes.
  The handler reads the size as a property of its own; in a \<open>File\<close> of the platform it
  is the number of the bytes, which no fact below depends on.
\<close>

record File =
  file_name :: string
  file_type :: string
  file_size :: nat
  file_content :: bytes

text \<open>
  \<open>formData.get('file')\<close> is \<open>null\<close> when the field is absent, a string when the client
  sent a text field of that name, and a \<open>File\<close> otherwise.
\<close>

datatype form_entry = Null | TextField string | FileField File

datatype js_error = Error string

text \<open>\<open>request.formData()\<close> rejects when the body cannot be parsed as form data.\<close>

record request =
  formData :: "js_error + form_entry"

text \<open>
  What a child process does: it cannot be started (the \<open>error\<close> event, with the message),
  or it is closed with an exit code (\<open>None\<close> is \<open>null\<close>, the process was killed by a
  signal), its standard output and its standard error.
\<close>

datatype worker_outcome =
  SpawnError string
| Closed "int option" string string

text \<open>
  The host as one request sees it: \<open>process.cwd()\<close>, \<open>os.tmpdir()\<close>, \<open>Date.now()\<close>, the
  paths at which the file system lets the process write and remove a file, the commands
  and arguments that the host refuses outright when a process is to be started (on
  Linux \<open>E2BIG\<close>, for an argument of 128 KiB or more), and what the two Python scripts do
  with their argument.
\<close>

record world =
  cwd :: string
  tmpdir :: string
  now :: int
  writable :: "string \<Rightarrow> bool"
  removable :: "string \<Rightarrow> bool"
  spawn_refused :: "string \<Rightarrow> string list \<Rightarrow> bool"
  extraction_worker :: "string \<Rightarrow> worker_outcome"
  anonymization_worker :: "string \<Rightarrow> worker_outcome"

text \<open>The calls the handler makes on the host, in order.\<close>

datatype event =
  WriteFile string bytes
| Spawn string "string list"
| Unlink string

record state =
  files :: "string \<rightharpoonup> bytes"
  trace :: "event list"

definition emit :: "event \<Rightarrow> state \<Rightarrow> state" where
  "emit e st = st\<lparr>trace := trace st @ [e]\<rparr>"

text \<open>
  \<open>fs.writeFile\<close> creates or replaces the file; \<open>fs.unlink\<close> rejects when there is no
  file at the path or the host refuses the removal.
\<close>

definition writeFile :: "world \<Rightarrow> string \<Rightarrow> bytes \<Rightarrow> state \<Rightarrow> (js_error + unit) \<times> state" where
  "writeFile w path buffer st =
     (let st' = emit (WriteFile path buffer) st
      in if writable w path then (Inr (), st'\<lparr>files := (files st')(path \<mapsto> buffer)\<rparr>)
         else (Inl (Error ''EACCES''), st'))"

definition unlink :: "world \<Rightarrow> string \<Rightarrow> state \<Rightarrow> (js_error + unit) \<times> state" where
  "unlink w path st =
     (let st' = emit (Unlink path) st
      in if files st' path = None then (Inl (Error ''ENOENT''), st')
         else if removable w path then (Inr (), st'\<lparr>files := (files st')(path := None)\<rparr>)
         else (Inl (Error ''EPERM''), st'))"

section \<open>The response\<close>

text \<open>
  The JSON bodies of the handler: \<open>{ message }\<close>, and
  \<open>{ text, rawText, filename, size }\<close> with the fields in this order.
\<close>

datatype json_body =
  Message string
| Extracted string string string nat

record response =
  status :: nat
  body :: json_body

section \<open>The two stages\<close>

text \<open>
  \<open>spawn\<close> itself throws, before any event of the child process, when the command or an
  argument has a NUL character (\<open>ERR_INVALID_ARG_VALUE\<close>) and when the host refuses the
  arguments outright. Both stages call \<open>spawn\<close> inside the executor of their promise,
  outside any \<open>try\<close>: the promise is then rejected with the error thrown.
\<close>

definition spawn_throws :: "world \<Rightarrow> string \<Rightarrow> string list \<Rightarrow> js_error option" where
  "spawn_throws w command args =
     (if CHR 0x00 \<in> set (concat (command # args)) then Some (Error ''ERR_INVALID_ARG_VALUE'')
      else if spawn_refused w command args then Some (Error ''E2BIG'')
      else None)"

definition extractTextFromFile :: "world \<Rightarrow> string \<Rightarrow> state \<Rightarrow> (js_error + string) \<times> state" where
  "extractTextFromFile w filePath st =
     (let pythonScript = join [cwd w, ''scripts'', ''extract_text.py''];
          st' = emit (Spawn ''python3'' [pythonScript, filePath]) st
      in case spawn_throws w ''python3'' [pythonScript, filePath] of
           Some e \<Rightarrow> (Inl e, st')
         | None \<Rightarrow>
             (case extraction_worker w filePath of
                Closed code output err \<Rightarrow>
                  if code = Some 0 then (Inr (trim output), st')
                  else (Inl (Error (''Python script failed: '' @ err)), st')
              | SpawnError msg \<Rightarrow>
                  (Inl (Error (''Failed to start Python process: '' @ msg)), st')))"

text \<open>
  The promise of \<open>preprocessText\<close> is resolved with the original text on the \<open>error\<close> event
  and on a close code other than 0; it is rejected only when \<open>spawn\<close> itself throws.
\<close>

definition preprocessText :: "world \<Rightarrow> string \<Rightarrow> state \<Rightarrow> (js_error + string) \<times> state" where
  "preprocessText w text st =
     (let pythonScript = join [cwd w, ''scripts'', ''anonymize_personal_info.py''];
          st' = emit (Spawn ''python3'' [pythonScript, text]) st
      in case spawn_throws w ''python3'' [pythonScript, text] of
           Some e \<Rightarrow> (Inl e, st')
         | None \<Rightarrow>
             (case anonymization_worker w text of
                Closed code output err \<Rightarrow>
                  if code = Some 0 then (Inr (trim output), st')
                  else (Inr text, st')
              | SpawnError msg \<Rightarrow> (Inr text, st')))"

section \<open>The handler\<close>

text \<open>
  The handler is the nest of two \<open>try\<close> blocks of the source. An error thrown inside a
  block is the \<open>Inl\<close> result of the block. Reading the bytes of the uploaded file,
  \<open>os.tmpdir()\<close>, \<open>Date.now()\<close>, \<open>path.join\<close>, the output on the console and the
  construction of a response do not throw; the output on the console is left out.
\<close>

definition tempFilePath :: "world \<Rightarrow> File \<Rightarrow> string" where
  "tempFilePath w f =
     join [tmpdir w, ''temp_'' @ number_toString (now w) @ ''_'' @ file_name f]"

text \<open>The \<open>catch\<close> of the inner \<open>try\<close>: remove the file, then throw the error again.\<close>

definition inner_catch :: "world \<Rightarrow> string \<Rightarrow> js_error \<Rightarrow> state \<Rightarrow> (js_error + response) \<times> state" where
  "inner_catch w path e st =
     (case unlink w path st of
        (Inl e', st') \<Rightarrow> (Inl e', st')
      | (Inr _, st') \<Rightarrow> (Inl e, st'))"

text \<open>The inner \<open>try\<close>: both stages, the removal of the file and the response.\<close>

definition inner_try :: "world \<Rightarrow> File \<Rightarrow> string \<Rightarrow> state \<Rightarrow> (js_error + response) \<times> state" where
  "inner_try w f path st =
     (case extractTextFromFile w path st of
        (Inl e, st1) \<Rightarrow> inner_catch w path e st1
      | (Inr extractedText, st1) \<Rightarrow>
          (case preprocessText w extractedText st1 of
             (Inl e, st2) \<Rightarrow> inner_catch w path e st2
           | (Inr preprocessedText, st2) \<Rightarrow>
               (case unlink w path st2 of
                  (Inl e, st3) \<Rightarrow> inner_catch w path e st3
                | (Inr _, st3) \<Rightarrow>
                    (Inr \<lparr>status = 200,
                          body = Extracted preprocessedText extractedText (file_name f) (file_size f)\<rparr>,
                     st3))))"

text \<open>The outer \<open>try\<close>: the checks, the temporary file, then the inner \<open>try\<close>.\<close>

definition outer_try :: "world \<Rightarrow> request \<Rightarrow> state \<Rightarrow> (js_error + response) \<times> state" where
  "outer_try w req st =
     (case formData req of
        Inl e \<Rightarrow> (Inl e, st)
      | Inr Null \<Rightarrow> (Inr \<lparr>status = 400, body = Message ''No file provided''\<rparr>, st)
      | Inr (TextField v) \<Rightarrow>
          (if v = [] then (Inr \<lparr>status = 400, body = Message ''No file provided''\<rparr>, st)
           else (Inr \<lparr>status = 400,
                      body = Message ''Invalid file type. Only PDF files are allowed.''\<rparr>, st))
      | Inr (FileField f) \<Rightarrow>
          (if file_type f \<noteq> ''application/pdf'' then
             (Inr \<lparr>status = 400,
                   body = Message ''Invalid file type. Only PDF files are allowed.''\<rparr>, st)
           else if file_size f > 5 * 1024 * 1024 then
             (Inr \<lparr>status = 400, body = Message ''File too large. Maximum size is 5MB.''\<rparr>, st)
           else
             (let path = tempFilePath w f
              in case writeFile w path (file_content f) st of
                   (Inl e, st1) \<Rightarrow> (Inl e, st1)
                 | (Inr _, st1) \<Rightarrow> inner_try w f path st1)))"

definition POST :: "world \<Rightarrow> request \<Rightarrow> state \<Rightarrow> response \<times> state" where
  "POST w req st =
     (case outer_try w req st of
        (Inl e, st') \<Rightarrow>
          (\<lparr>status = 500, body = Message ''Error processing file. Please try again.''\<rparr>, st')
      | (Inr resp, st') \<Rightarrow> (resp, st'))"

text \<open>The calls of one request, made from a state with an empty trace.\<close>

definition calls :: "world \<Rightarrow> request \<Rightarrow> state \<Rightarrow> event list" where
  "calls w req st = trace (snd (POST w req (st\<lparr>trace := []\<rparr>)))"

section \<open>Example hosts and uploads\<close>

text \<open>
  A host on which everything works: the extraction script prints a line of text and the
  anonymization script prints the redacted line, each followed by a newline.
\<close>

definition scenario_world :: world where
  "scenario_world =
     \<lparr>cwd = ''/app'', tmpdir = ''/tmp'', now = 1700000000000,
      writable = (\<lambda>_. True), removable = (\<lambda>_. True),
      spawn_refused = (\<lambda>_ _. False),
      extraction_worker = (\<lambda>_. Closed (Some 0) ''John Doe, Software Engineer\<newline>'' []),
      anonymization_worker = (\<lambda>_. Closed (Some 0) ''[NAME], Software Engineer\<newline>'' [])\<rparr>"

text \<open>The same host when the extraction script exits with code 1.\<close>

definition corrupt_pdf_world :: world where
  "corrupt_pdf_world =
     scenario_world\<lparr>extraction_worker := (\<lambda>_. Closed (Some 1) [] ''corrupt PDF'')\<rparr>"

text \<open>The same host when the anonymization script exits with code 1.\<close>

definition failing_anonymizer_world :: world where
  "failing_anonymizer_world =
     scenario_world\<lparr>anonymization_worker := (\<lambda>_. Closed (Some 1) [] ''no model'')\<rparr>"

text \<open>The same host when the anonymization script exits with code 0 and prints nothing.\<close>

definition silent_anonymizer_world :: world where
  "silent_anonymizer_world =
     scenario_world\<lparr>anonymization_worker := (\<lambda>_. Closed (Some 0) [] [])\<rparr>"

text \<open>The same host when the file system refuses to remove files.\<close>

definition no_removal_world :: world where
  "no_removal_world = scenario_world\<lparr>removable := (\<lambda>_. False)\<rparr>"

text \<open>The same host when the extraction script prints a text with a NUL character.\<close>

definition nul_text_world :: world where
  "nul_text_world =
     scenario_world\<lparr>extraction_worker :=
       (\<lambda>_. Closed (Some 0) (''John'' @ [CHR 0x00] @ ''Doe\<newline>'') [])\<rparr>"

text \<open>Uploads: a PDF, a second PDF of the same name, a Word document, a crafted name.\<close>

definition cv_pdf :: File where
  "cv_pdf = \<lparr>file_name = ''cv.pdf'', file_type = ''application/pdf'', file_size = 8,
             file_content = [0x25, 0x50, 0x44, 0x46, 0x2D, 0x31, 0x2E, 0x34]\<rparr>"

definition other_cv_pdf :: File where
  "other_cv_pdf = \<lparr>file_name = ''cv.pdf'', file_type = ''application/pdf'', file_size = 8,
                   file_content = [0x25, 0x50, 0x44, 0x46, 0x2D, 0x31, 0x2E, 0x37]\<rparr>"

definition cv_doc :: File where
  "cv_doc = \<lparr>file_name = ''cv.doc'', file_type = ''application/msword'', file_size = 4,
             file_content = [0xD0, 0xCF, 0x11, 0xE0]\<rparr>"

definition crafted_pdf :: File where
  "crafted_pdf = \<lparr>file_name = ''x/../../etc/passwd'', file_type = ''application/pdf'',
                  file_size = 8,
                  file_content = [0x25, 0x50, 0x44, 0x46, 0x2D, 0x31, 0x2E, 0x34]\<rparr>"

definition upload :: "File \<Rightarrow> request" where
  "upload f = \<lparr>formData = Inr (FileField f)\<rparr>"

definition empty_form :: request where
  "empty_form = \<lparr>formData = Inr Null\<rparr>"

definition empty_disk :: state where
  "empty_disk = \<lparr>files = Map.empty, trace = []\<rparr>"

section \<open>Auxiliary facts\<close>

lemmas handler_defs =
  POST_def outer_try_def inner_try_def inner_catch_def extractTextFromFile_def
  preprocessText_def spawn_throws_def writeFile_def unlink_def emit_def calls_def Let_def

lemmas world_defs =
  scenario_world_def corrupt_pdf_world_def failing_anonymizer_world_def
  silent_anonymizer_world_def no_removal_world_def nul_text_world_def

lemmas upload_defs =
  cv_pdf_def other_cv_pdf_def cv_doc_def crafted_pdf_def upload_def empty_form_def empty_disk_def

lemma number_toString_now: "number_toString 1700000000000 = ''1700000000000''"
  by (simp add: number_toString_def decimal.simps digit_char_def)

lemma tempFilePath_cv:
  "tmpdir w = ''/tmp'' \<Longrightarrow> now w = 1700000000000 \<Longrightarrow> file_name f = ''cv.pdf'' \<Longrightarrow>
   tempFilePath w f = ''/tmp/temp_1700000000000_cv.pdf''"
  by (simp add: tempFilePath_def number_toString_now join_def normalize_def)

lemma join_scripts:
  "join [''/app'', ''scripts'', ''extract_text.py''] = ''/app/scripts/extract_text.py''"
  "join [''/app'', ''scripts'', ''anonymize_personal_info.py''] =
     ''/app/scripts/anonymize_personal_info.py''"
  by (simp_all add: join_def normalize_def)

lemma trim_examples:
  "trim ''John Doe, Software Engineer\<newline>'' = ''John Doe, Software Engineer''"
  "trim ''[NAME], Software Engineer\<newline>'' = ''[NAME], Software Engineer''"
  "trim [] = []"
  by (simp_all add: trim_def isWhiteSpace_def)

text \<open>A decimal numeral has no path separator, so it never ends a path segment.\<close>

lemma digit_char_no_slash: "k < 10 \<Longrightarrow> CHR ''/'' \<noteq> digit_char k"
proof -
  assume "k < 10"
  then have "digit_char k \<in> set ''0123456789''"
    unfolding digit_char_def by (intro nth_mem) simp
  then show ?thesis by auto
qed

lemma decimal_no_slash: "CHR ''/'' \<notin> set (decimal n)"
proof (induction n rule: decimal.induct)
  case (1 n)
  show ?case
  proof (cases "n < 10")
    case True
    then show ?thesis by (simp add: decimal.simps [of n] digit_char_no_slash)
  next
    case False
    with 1 show ?thesis by (simp add: decimal.simps [of n] digit_char_no_slash)
  qed
qed

lemma number_toString_no_slash: "CHR ''/'' \<notin> set (number_toString i)"
  by (simp add: number_toString_def decimal_no_slash)

lemma split_slash_not_Nil: "split_slash s \<noteq> []"
  by (induction s) (auto split: list.splits)

lemma split_slash_append:
  "CHR ''/'' \<notin> set a \<Longrightarrow>
   split_slash (a @ b) = (a @ hd (split_slash b)) # tl (split_slash b)"
  using split_slash_not_Nil [of b]
  by (induction a) (auto split: list.splits)

lemma tempFilePath_crafted:
  "tmpdir w = ''/tmp'' \<Longrightarrow> file_name f = ''x/../../etc/passwd'' \<Longrightarrow>
   tempFilePath w f = ''/etc/passwd''"
  by (simp add: tempFilePath_def join_def normalize_def split_slash_append
      number_toString_no_slash)

text \<open>
  The response, the calls and the fate of the temporary file, as functions of the request
  and of the host.
\<close>

lemma preprocessText_result:
  "fst (preprocessText w text st) =
     (case spawn_throws w ''python3''
             [join [cwd w, ''scripts'', ''anonymize_personal_info.py''], text] of
        Some e \<Rightarrow> Inl e
      | None \<Rightarrow>
          Inr (case anonymization_worker w text of
                 Closed code output err \<Rightarrow> if code = Some 0 then trim output else text
               | SpawnError msg \<Rightarrow> text))"
  by (simp add: preprocessText_def Let_def split: worker_outcome.splits option.splits)

lemma POST_response:
  "fst (POST w req st) =
     (case formData req of
        Inl e \<Rightarrow> \<lparr>status = 500, body = Message ''Error processing file. Please try again.''\<rparr>
      | Inr Null \<Rightarrow> \<lparr>status = 400, body = Message ''No file provided''\<rparr>
      | Inr (TextField v) \<Rightarrow>
          (if v = [] then \<lparr>status = 400, body = Message ''No file provided''\<rparr>
           else \<lparr>status = 400, body = Message ''Invalid file type. Only PDF files are allowed.''\<rparr>)
      | Inr (FileField f) \<Rightarrow>
          (if file_type f \<noteq> ''application/pdf'' then
             \<lparr>status = 400, body = Message ''Invalid file type. Only PDF files are allowed.''\<rparr>
           else if file_size f > 5 * 1024 * 1024 then
             \<lparr>status = 400, body = Message ''File too large. Maximum size is 5MB.''\<rparr>
           else if writable w (tempFilePath w f)
                 \<and> spawn_throws w ''python3''
                      [join [cwd w, ''scripts'', ''extract_text.py''], tempFilePath w f] = None
           then
             (case extraction_worker w (tempFilePath w f) of
                Closed code out err \<Rightarrow>
                  if code = Some 0 \<and> removable w (tempFilePath w f)
                     \<and> spawn_throws w ''python3''
                          [join [cwd w, ''scripts'', ''anonymize_personal_info.py''], trim out] = None
                  then
                    \<lparr>status = 200,
                     body = Extracted
                       (case anonymization_worker w (trim out) of
                          Closed code output e \<Rightarrow> if code = Some 0 then trim output else trim out
                        | SpawnError msg \<Rightarrow> trim out)
                       (trim out) (file_name f) (file_size f)\<rparr>
                  else \<lparr>status = 500, body = Message ''Error processing file. Please try again.''\<rparr>
              | SpawnError msg \<Rightarrow>
                  \<lparr>status = 500, body = Message ''Error processing file. Please try again.''\<rparr>)
           else \<lparr>status = 500, body = Message ''Error processing file. Please try again.''\<rparr>))"
  by (simp add: handler_defs
      split: sum.splits worker_outcome.splits prod.splits form_entry.splits option.splits)

lemma POST_calls:
  "calls w req st =
     (case formData req of
        Inr (FileField f) \<Rightarrow>
          (if file_type f = ''application/pdf'' \<and> file_size f \<le> 5 * 1024 * 1024 then
             WriteFile (tempFilePath w f) (file_content f) #
             (if writable w (tempFilePath w f) then
                Spawn ''python3'' [join [cwd w, ''scripts'', ''extract_text.py''], tempFilePath w f] #
                (if spawn_throws w ''python3''
                      [join [cwd w, ''scripts'', ''extract_text.py''], tempFilePath w f] = None
                 then
                   (case extraction_worker w (tempFilePath w f) of
                      Closed code out err \<Rightarrow>
                        if code = Some 0 then
                          Spawn ''python3''
                            [join [cwd w, ''scripts'', ''anonymize_personal_info.py''], trim out] #
                          Unlink (tempFilePath w f) #
                          (if spawn_throws w ''python3''
                                [join [cwd w, ''scripts'', ''anonymize_personal_info.py''], trim out]
                                = None
                              \<and> \<not> removable w (tempFilePath w f)
                           then [Unlink (tempFilePath w f)] else [])
                        else [Unlink (tempFilePath w f)]
                    | SpawnError msg \<Rightarrow> [Unlink (tempFilePath w f)])
                 else [Unlink (tempFilePath w f)])
              else [])
           else [])
      | _ \<Rightarrow> [])"
  by (simp add: handler_defs
      split: sum.splits worker_outcome.splits prod.splits form_entry.splits option.splits)

lemma POST_rejected:
  "(case formData req of
      Inr (FileField f) \<Rightarrow>
        \<not> (file_type f = ''application/pdf'' \<and> file_size f \<le> 5 * 1024 * 1024)
    | _ \<Rightarrow> True) \<Longrightarrow>
   snd (POST w req st) = st"
  by (auto simp add: handler_defs split: sum.splits form_entry.splits)

lemma POST_files:
  "formData req = Inr (FileField f) \<Longrightarrow> file_type f = ''application/pdf'' \<Longrightarrow>
   file_size f \<le> 5 * 1024 * 1024 \<Longrightarrow> writable w (tempFilePath w f) \<Longrightarrow>
   files (snd (POST w req st)) (tempFilePath w f) =
     (if removable w (tempFilePath w f) then None else Some (file_content f))"
  by (simp add: handler_defs
      split: sum.splits worker_outcome.splits prod.splits option.splits)

section \<open>Rejected requests\<close>

text \<open>
  C10: when the form data has no \<open>file\<close> field, the handler answers 400 with the message
  "No file provided", and the state of the host is untouched: no temporary file is
  written and no worker is started.
\<close>

theorem no_file_field:
  "formData req = Inr Null \<Longrightarrow>
   POST w req st = (\<lparr>status = 400, body = Message ''No file provided''\<rparr>, st)"
  by (simp add: POST_def outer_try_def)

theorem no_file_field_witness:
  "formData empty_form = Inr Null \<and>
   POST scenario_world empty_form empty_disk =
     (\<lparr>status = 400, body = Message ''No file provided''\<rparr>, empty_disk)"
  using no_file_field [of empty_form scenario_world empty_disk]
  by (simp add: empty_form_def)

text \<open>
  C3: an uploaded file passes the checks, that is, the handler goes on to write the
  temporary file, exactly when its declared type is \<open>application/pdf\<close> and its size is at
  most 5 * 1024 * 1024 bytes. Otherwise the answer is 400 with a message, and the state
  of the host is untouched: no temporary file is written and no worker is started.
\<close>

theorem validation:
  assumes "formData req = Inr (FileField f)"
  shows "(calls w req st \<noteq> [] \<longleftrightarrow>
            file_type f = ''application/pdf'' \<and> file_size f \<le> 5 * 1024 * 1024)
       \<and> (file_type f = ''application/pdf'' \<and> file_size f \<le> 5 * 1024 * 1024 \<longrightarrow>
            (\<exists>rest. calls w req st = WriteFile (tempFilePath w f) (file_content f) # rest)
            \<and> status (fst (POST w req st)) \<noteq> 400)
       \<and> (\<not> (file_type f = ''application/pdf'' \<and> file_size f \<le> 5 * 1024 * 1024) \<longrightarrow>
            status (fst (POST w req st)) = 400
            \<and> (\<exists>m. body (fst (POST w req st)) = Message m)
            \<and> snd (POST w req st) = st)"
  using assms POST_rejected [of req w st]
  by (auto simp add: POST_response POST_calls split: worker_outcome.splits)

theorem validation_witness:
  "formData (upload cv_pdf) = Inr (FileField cv_pdf)
   \<and> file_type cv_pdf = ''application/pdf'' \<and> file_size cv_pdf \<le> 5 * 1024 * 1024
   \<and> calls scenario_world (upload cv_pdf) empty_disk \<noteq> []
   \<and> (\<exists>rest. calls scenario_world (upload cv_pdf) empty_disk =
         WriteFile (tempFilePath scenario_world cv_pdf) (file_content cv_pdf) # rest)
   \<and> status (fst (POST scenario_world (upload cv_pdf) empty_disk)) \<noteq> 400
   \<and> formData (upload cv_doc) = Inr (FileField cv_doc)
   \<and> file_type cv_doc \<noteq> ''application/pdf''
   \<and> calls scenario_world (upload cv_doc) empty_disk = []
   \<and> status (fst (POST scenario_world (upload cv_doc) empty_disk)) = 400
   \<and> (\<exists>m. body (fst (POST scenario_world (upload cv_doc) empty_disk)) = Message m)
   \<and> snd (POST scenario_world (upload cv_doc) empty_disk) = empty_disk"
proof -
  have pdf: "formData (upload cv_pdf) = Inr (FileField cv_pdf)"
    and doc: "formData (upload cv_doc) = Inr (FileField cv_doc)"
    by (simp_all add: upload_def)
  have ok: "file_type cv_pdf = ''application/pdf'' \<and> file_size cv_pdf \<le> 5 * 1024 * 1024"
    and bad: "file_type cv_doc \<noteq> ''application/pdf''"
    by (simp_all add: cv_pdf_def cv_doc_def)
  from validation [OF pdf, of scenario_world empty_disk]
       validation [OF doc, of scenario_world empty_disk] pdf doc ok bad
  show ?thesis by simp
qed

section \<open>Failure of the extraction\<close>

text \<open>
  C4: when the extraction process cannot be started (\<open>spawn\<close> throws, or the \<open>error\<close>
  event) or is closed with a code other than 0, the request is aborted: the answer is 500 with a JSON message, and the removal of
  the temporary file is the last call the handler makes before it answers, after which
  the file is gone wherever the host allows the removal.
\<close>

theorem extraction_failure:
  assumes "formData req = Inr (FileField f)"
    and "file_type f = ''application/pdf''" and "file_size f \<le> 5 * 1024 * 1024"
    and "writable w (tempFilePath w f)"
    and "spawn_throws w ''python3''
           [join [cwd w, ''scripts'', ''extract_text.py''], tempFilePath w f] \<noteq> None \<or>
         (\<exists>msg. extraction_worker w (tempFilePath w f) = SpawnError msg) \<or>
         (\<exists>code out err. extraction_worker w (tempFilePath w f) = Closed code out err
            \<and> code \<noteq> Some 0)"
  shows "fst (POST w req st) =
           \<lparr>status = 500, body = Message ''Error processing file. Please try again.''\<rparr>
       \<and> calls w req st =
           [WriteFile (tempFilePath w f) (file_content f),
            Spawn ''python3'' [join [cwd w, ''scripts'', ''extract_text.py''], tempFilePath w f],
            Unlink (tempFilePath w f)]
       \<and> (removable w (tempFilePath w f) \<longrightarrow>
            files (snd (POST w req st)) (tempFilePath w f) = None)"
  using assms POST_files [of req f w st]
  by (auto simp add: POST_response POST_calls)

theorem extraction_failure_witness:
  "formData (upload cv_pdf) = Inr (FileField cv_pdf)
   \<and> file_type cv_pdf = ''application/pdf'' \<and> file_size cv_pdf \<le> 5 * 1024 * 1024
   \<and> writable corrupt_pdf_world (tempFilePath corrupt_pdf_world cv_pdf)
   \<and> extraction_worker corrupt_pdf_world (tempFilePath corrupt_pdf_world cv_pdf) =
       Closed (Some 1) [] ''corrupt PDF''
   \<and> removable corrupt_pdf_world (tempFilePath corrupt_pdf_world cv_pdf)
   \<and> fst (POST corrupt_pdf_world (upload cv_pdf) empty_disk) =
       \<lparr>status = 500, body = Message ''Error processing file. Please try again.''\<rparr>
   \<and> calls corrupt_pdf_world (upload cv_pdf) empty_disk =
       [WriteFile ''/tmp/temp_1700000000000_cv.pdf'' (file_content cv_pdf),
        Spawn ''python3'' [''/app/scripts/extract_text.py'', ''/tmp/temp_1700000000000_cv.pdf''],
        Unlink ''/tmp/temp_1700000000000_cv.pdf'']
   \<and> files (snd (POST corrupt_pdf_world (upload cv_pdf) empty_disk))
         ''/tmp/temp_1700000000000_cv.pdf'' = None"
proof -
  have path: "tempFilePath corrupt_pdf_world cv_pdf = ''/tmp/temp_1700000000000_cv.pdf''"
    by (rule tempFilePath_cv) (simp_all add: world_defs cv_pdf_def)
  have hyps: "formData (upload cv_pdf) = Inr (FileField cv_pdf)"
    "file_type cv_pdf = ''application/pdf''" "file_size cv_pdf \<le> 5 * 1024 * 1024"
    "writable corrupt_pdf_world (tempFilePath corrupt_pdf_world cv_pdf)"
    "extraction_worker corrupt_pdf_world (tempFilePath corrupt_pdf_world cv_pdf) =
       Closed (Some 1) [] ''corrupt PDF''"
    "removable corrupt_pdf_world (tempFilePath corrupt_pdf_world cv_pdf)"
    "cwd corrupt_pdf_world = ''/app''"
    by (simp_all add: world_defs upload_defs)
  from extraction_failure [of "upload cv_pdf" cv_pdf corrupt_pdf_world empty_disk] hyps
  show ?thesis by (simp add: path join_scripts)
qed

section \<open>The path of the temporary file\<close>

text \<open>
  C9: for an upload that passes the checks, the first call of the handler writes the
  uploaded bytes at the path \<open>join(tmpdir(), "temp_" + Date.now() + "_" + file.name)\<close>, with
  the name of the client taken as it is. A name with path separators and \<open>..\<close> therefore
  leaves the temporary directory: with \<open>/tmp\<close> as temporary directory, the name
  \<open>x/../../etc/passwd\<close> makes the handler write to \<open>/etc/passwd\<close>, whatever the time stamp.
\<close>

theorem temp_path_unsanitized:
  assumes "formData req = Inr (FileField f)"
    and "file_type f = ''application/pdf''" and "file_size f \<le> 5 * 1024 * 1024"
  shows "(\<exists>rest. calls w req st =
            WriteFile (join [tmpdir w, ''temp_'' @ number_toString (now w) @ ''_'' @ file_name f])
              (file_content f) # rest)
       \<and> (tmpdir w = ''/tmp'' \<and> file_name f = ''x/../../etc/passwd'' \<longrightarrow>
            (\<exists>rest. calls w req st = WriteFile ''/etc/passwd'' (file_content f) # rest))"
proof -
  have "\<exists>rest. calls w req st = WriteFile (tempFilePath w f) (file_content f) # rest"
    using assms by (simp add: POST_calls)
  then show ?thesis
    using tempFilePath_crafted [of w f] by (auto simp add: tempFilePath_def)
qed

theorem temp_path_unsanitized_witness:
  "formData (upload crafted_pdf) = Inr (FileField crafted_pdf)
   \<and> file_type crafted_pdf = ''application/pdf'' \<and> file_size crafted_pdf \<le> 5 * 1024 * 1024
   \<and> tmpdir scenario_world = ''/tmp'' \<and> file_name crafted_pdf = ''x/../../etc/passwd''
   \<and> (\<exists>rest. calls scenario_world (upload crafted_pdf) empty_disk =
         WriteFile ''/etc/passwd'' (file_content crafted_pdf) # rest)
   \<and> calls scenario_world (upload crafted_pdf) empty_disk =
       [WriteFile ''/etc/passwd'' (file_content crafted_pdf),
        Spawn ''python3'' [''/app/scripts/extract_text.py'', ''/etc/passwd''],
        Spawn ''python3''
          [''/app/scripts/anonymize_personal_info.py'', ''John Doe, Software Engineer''],
        Unlink ''/etc/passwd'']"
proof -
  have hyps: "formData (upload crafted_pdf) = Inr (FileField crafted_pdf)"
    "file_type crafted_pdf = ''application/pdf''" "file_size crafted_pdf \<le> 5 * 1024 * 1024"
    and more: "tmpdir scenario_world = ''/tmp''" "file_name crafted_pdf = ''x/../../etc/passwd''"
    by (simp_all add: world_defs upload_defs)
  from temp_path_unsanitized [OF hyps, of scenario_world empty_disk] more
  have first: "\<exists>rest. calls scenario_world (upload crafted_pdf) empty_disk =
       WriteFile ''/etc/passwd'' (file_content crafted_pdf) # rest"
    by blast
  have all: "calls scenario_world (upload crafted_pdf) empty_disk =
       [WriteFile ''/etc/passwd'' (file_content crafted_pdf),
        Spawn ''python3'' [''/app/scripts/extract_text.py'', ''/etc/passwd''],
        Spawn ''python3''
          [''/app/scripts/anonymize_personal_info.py'', ''John Doe, Software Engineer''],
        Unlink ''/etc/passwd'']"
    by (simp add: handler_defs tempFilePath_crafted join_scripts trim_examples world_defs
        upload_defs)
  from hyps more first all show ?thesis by blast
qed

text \<open>
  C7: the paths of two requests are not always distinct. Two uploads of the name
  \<open>cv.pdf\<close> with different bytes, handled in the same millisecond, are written to the
  same path. When the second request is finished before the first one, it has replaced
  the file and removed it: the rest of the first handler, run on the files the second
  request leaves behind, has its removal rejected and fails, although both of its
  workers succeed.
\<close>

theorem temp_path_collision:
  "cv_pdf \<noteq> other_cv_pdf \<and> file_name cv_pdf = file_name other_cv_pdf
   \<and> calls scenario_world (upload cv_pdf) empty_disk =
       [WriteFile ''/tmp/temp_1700000000000_cv.pdf''
          [0x25, 0x50, 0x44, 0x46, 0x2D, 0x31, 0x2E, 0x34],
        Spawn ''python3'' [''/app/scripts/extract_text.py'', ''/tmp/temp_1700000000000_cv.pdf''],
        Spawn ''python3''
          [''/app/scripts/anonymize_personal_info.py'', ''John Doe, Software Engineer''],
        Unlink ''/tmp/temp_1700000000000_cv.pdf'']
   \<and> calls scenario_world (upload other_cv_pdf) empty_disk =
       [WriteFile ''/tmp/temp_1700000000000_cv.pdf''
          [0x25, 0x50, 0x44, 0x46, 0x2D, 0x31, 0x2E, 0x37],
        Spawn ''python3'' [''/app/scripts/extract_text.py'', ''/tmp/temp_1700000000000_cv.pdf''],
        Spawn ''python3''
          [''/app/scripts/anonymize_personal_info.py'', ''John Doe, Software Engineer''],
        Unlink ''/tmp/temp_1700000000000_cv.pdf'']
   \<and> files (snd (POST scenario_world (upload other_cv_pdf)
        (snd (writeFile scenario_world ''/tmp/temp_1700000000000_cv.pdf'' (file_content cv_pdf)
           empty_disk)))) ''/tmp/temp_1700000000000_cv.pdf'' = None
   \<and> fst (inner_try scenario_world cv_pdf ''/tmp/temp_1700000000000_cv.pdf''
        (snd (POST scenario_world (upload other_cv_pdf)
          (snd (writeFile scenario_world ''/tmp/temp_1700000000000_cv.pdf'' (file_content cv_pdf)
             empty_disk))))) = Inl (Error ''ENOENT'')"
  by (simp add: handler_defs tempFilePath_cv join_scripts trim_examples world_defs upload_defs)

section \<open>The successful response\<close>

text \<open>
  C8: the response has status 200 exactly when the upload passes the checks, its
  temporary file is written, \<open>spawn\<close> throws for neither worker, the extraction process
  exits with code 0 and the temporary file is removed. The body then has the fields
  \<open>text\<close>, the result of the anonymization stage on the raw text, \<open>rawText\<close>, the standard
  output of the extraction process without leading and trailing white space,
  \<open>filename\<close>, the name of the uploaded file, and \<open>size\<close>, its size in bytes.
\<close>

theorem response_shape:
  "(status (fst (POST w req st)) = 200 \<longleftrightarrow>
      (\<exists>f out err. formData req = Inr (FileField f)
         \<and> file_type f = ''application/pdf'' \<and> file_size f \<le> 5 * 1024 * 1024
         \<and> writable w (tempFilePath w f)
         \<and> spawn_throws w ''python3''
              [join [cwd w, ''scripts'', ''extract_text.py''], tempFilePath w f] = None
         \<and> extraction_worker w (tempFilePath w f) = Closed (Some 0) out err
         \<and> spawn_throws w ''python3''
              [join [cwd w, ''scripts'', ''anonymize_personal_info.py''], trim out] = None
         \<and> removable w (tempFilePath w f)))
 \<and> (formData req = Inr (FileField f)
      \<and> file_type f = ''application/pdf'' \<and> file_size f \<le> 5 * 1024 * 1024
      \<and> writable w (tempFilePath w f)
      \<and> spawn_throws w ''python3''
           [join [cwd w, ''scripts'', ''extract_text.py''], tempFilePath w f] = None
      \<and> extraction_worker w (tempFilePath w f) = Closed (Some 0) out err
      \<and> spawn_throws w ''python3''
           [join [cwd w, ''scripts'', ''anonymize_personal_info.py''], trim out] = None
      \<and> removable w (tempFilePath w f) \<longrightarrow>
      (\<exists>t. fst (preprocessText w (trim out) st) = Inr t
         \<and> fst (POST w req st) =
             \<lparr>status = 200,
              body = Extracted t (trim out) (file_name f) (file_size f)\<rparr>))"
  by (auto simp add: POST_response preprocessText_result
      split: sum.splits worker_outcome.splits form_entry.splits if_splits)

theorem response_shape_witness:
  "formData (upload cv_pdf) = Inr (FileField cv_pdf)
   \<and> file_type cv_pdf = ''application/pdf'' \<and> file_size cv_pdf \<le> 5 * 1024 * 1024
   \<and> writable scenario_world (tempFilePath scenario_world cv_pdf)
   \<and> spawn_throws scenario_world ''python3''
        [join [cwd scenario_world, ''scripts'', ''extract_text.py''],
         tempFilePath scenario_world cv_pdf] = None
   \<and> extraction_worker scenario_world (tempFilePath scenario_world cv_pdf) =
       Closed (Some 0) ''John Doe, Software Engineer\<newline>'' []
   \<and> spawn_throws scenario_world ''python3''
        [join [cwd scenario_world, ''scripts'', ''anonymize_personal_info.py''],
         trim ''John Doe, Software Engineer\<newline>''] = None
   \<and> removable scenario_world (tempFilePath scenario_world cv_pdf)
   \<and> status (fst (POST scenario_world (upload cv_pdf) empty_disk)) = 200
   \<and> fst (POST scenario_world (upload cv_pdf) empty_disk) =
       \<lparr>status = 200,
        body = Extracted ''[NAME], Software Engineer'' ''John Doe, Software Engineer''
                 ''cv.pdf'' 8\<rparr>"
proof -
  have hyps: "formData (upload cv_pdf) = Inr (FileField cv_pdf)"
    "file_type cv_pdf = ''application/pdf''" "file_size cv_pdf \<le> 5 * 1024 * 1024"
    "writable scenario_world (tempFilePath scenario_world cv_pdf)"
    "spawn_throws scenario_world ''python3''
        [join [cwd scenario_world, ''scripts'', ''extract_text.py''],
         tempFilePath scenario_world cv_pdf] = None"
    "extraction_worker scenario_world (tempFilePath scenario_world cv_pdf) =
       Closed (Some 0) ''John Doe, Software Engineer\<newline>'' []"
    "spawn_throws scenario_world ''python3''
        [join [cwd scenario_world, ''scripts'', ''anonymize_personal_info.py''],
         trim ''John Doe, Software Engineer\<newline>''] = None"
    "removable scenario_world (tempFilePath scenario_world cv_pdf)"
    by (simp_all add: spawn_throws_def tempFilePath_cv join_scripts trim_examples world_defs
        upload_defs)
  have anon: "fst (preprocessText scenario_world ''John Doe, Software Engineer'' empty_disk) =
      Inr ''[NAME], Software Engineer''"
    by (simp add: preprocessText_result spawn_throws_def join_scripts trim_examples world_defs)
  from response_shape [of scenario_world "upload cv_pdf" empty_disk cv_pdf
      "''John Doe, Software Engineer\<newline>''" "[]"] hyps
  have "status (fst (POST scenario_world (upload cv_pdf) empty_disk)) = 200"
    and "\<exists>t. fst (preprocessText scenario_world (trim ''John Doe, Software Engineer\<newline>'')
              empty_disk) = Inr t
         \<and> fst (POST scenario_world (upload cv_pdf) empty_disk) =
        \<lparr>status = 200,
         body = Extracted t (trim ''John Doe, Software Engineer\<newline>'')
                  (file_name cv_pdf) (file_size cv_pdf)\<rparr>"
    by blast+
  with hyps anon show ?thesis by (auto simp add: trim_examples cv_pdf_def)
qed

section \<open>The anonymization stage\<close>

text \<open>
  C2, as amended: for an upload that passes the checks, whose temporary file is written,
  whose extraction process exits with code 0, and for which \<open>spawn\<close> throws for neither
  worker, the outcome of the anonymization process never makes the request fail: the
  answer is 200 exactly when the host lets the handler remove the temporary file, and
  then \<open>text\<close> is the standard output of the anonymization process without leading and
  trailing white space when that process exits with code 0, and the raw text itself
  when it exits with another code or cannot be started (the \<open>error\<close> event).
\<close>

theorem anonymization_fail_soft:
  assumes "formData req = Inr (FileField f)"
    and "file_type f = ''application/pdf''" and "file_size f \<le> 5 * 1024 * 1024"
    and "writable w (tempFilePath w f)"
    and "spawn_throws w ''python3''
           [join [cwd w, ''scripts'', ''extract_text.py''], tempFilePath w f] = None"
    and "extraction_worker w (tempFilePath w f) = Closed (Some 0) out err"
    and "spawn_throws w ''python3''
           [join [cwd w, ''scripts'', ''anonymize_personal_info.py''], trim out] = None"
  shows "(status (fst (POST w req st)) = 200 \<longleftrightarrow> removable w (tempFilePath w f))
       \<and> (removable w (tempFilePath w f) \<longrightarrow>
            fst (POST w req st) =
              \<lparr>status = 200,
               body = Extracted
                 (case anonymization_worker w (trim out) of
                    Closed code output e \<Rightarrow> if code = Some 0 then trim output else trim out
                  | SpawnError msg \<Rightarrow> trim out)
                 (trim out) (file_name f) (file_size f)\<rparr>)"
  using assms by (simp add: POST_response)

theorem anonymization_fail_soft_witness:
  "formData (upload cv_pdf) = Inr (FileField cv_pdf)
   \<and> file_type cv_pdf = ''application/pdf'' \<and> file_size cv_pdf \<le> 5 * 1024 * 1024
   \<and> writable failing_anonymizer_world (tempFilePath failing_anonymizer_world cv_pdf)
   \<and> spawn_throws failing_anonymizer_world ''python3''
        [join [cwd failing_anonymizer_world, ''scripts'', ''extract_text.py''],
         tempFilePath failing_anonymizer_world cv_pdf] = None
   \<and> extraction_worker failing_anonymizer_world (tempFilePath failing_anonymizer_world cv_pdf) =
       Closed (Some 0) ''John Doe, Software Engineer\<newline>'' []
   \<and> spawn_throws failing_anonymizer_world ''python3''
        [join [cwd failing_anonymizer_world, ''scripts'', ''anonymize_personal_info.py''],
         trim ''John Doe, Software Engineer\<newline>''] = None
   \<and> removable failing_anonymizer_world (tempFilePath failing_anonymizer_world cv_pdf)
   \<and> anonymization_worker failing_anonymizer_world ''John Doe, Software Engineer'' =
       Closed (Some 1) [] ''no model''
   \<and> status (fst (POST failing_anonymizer_world (upload cv_pdf) empty_disk)) = 200
   \<and> fst (POST failing_anonymizer_world (upload cv_pdf) empty_disk) =
       \<lparr>status = 200,
        body = Extracted ''John Doe, Software Engineer'' ''John Doe, Software Engineer''
                 ''cv.pdf'' 8\<rparr>"
proof -
  have hyps: "formData (upload cv_pdf) = Inr (FileField cv_pdf)"
    "file_type cv_pdf = ''application/pdf''" "file_size cv_pdf \<le> 5 * 1024 * 1024"
    "writable failing_anonymizer_world (tempFilePath failing_anonymizer_world cv_pdf)"
    "spawn_throws failing_anonymizer_world ''python3''
        [join [cwd failing_anonymizer_world, ''scripts'', ''extract_text.py''],
         tempFilePath failing_anonymizer_world cv_pdf] = None"
    "extraction_worker failing_anonymizer_world (tempFilePath failing_anonymizer_world cv_pdf) =
       Closed (Some 0) ''John Doe, Software Engineer\<newline>'' []"
    "spawn_throws failing_anonymizer_world ''python3''
        [join [cwd failing_anonymizer_world, ''scripts'', ''anonymize_personal_info.py''],
         trim ''John Doe, Software Engineer\<newline>''] = None"
    by (simp_all add: spawn_throws_def tempFilePath_cv join_scripts trim_examples world_defs
        upload_defs)
  have more: "removable failing_anonymizer_world (tempFilePath failing_anonymizer_world cv_pdf)"
    "anonymization_worker failing_anonymizer_world ''John Doe, Software Engineer'' =
       Closed (Some 1) [] ''no model''"
    by (simp_all add: world_defs)
  from anonymization_fail_soft [OF hyps, of empty_disk] hyps more
  show ?thesis by (simp add: trim_examples cv_pdf_def)
qed

text \<open>
  The claim as first stated fails twice. The anonymization process exits with code 0 and
  prints a line that ends in a newline: \<open>text\<close> is that line without the newline, not the
  standard output. And when the raw text has a NUL character, \<open>spawn\<close> throws for the
  anonymization process: no process is started, the temporary file is removed and the
  answer is 500, not 200 with the raw text.
\<close>

theorem anonymization_counterexample:
  "anonymization_worker scenario_world ''John Doe, Software Engineer'' =
     Closed (Some 0) ''[NAME], Software Engineer\<newline>'' []
   \<and> fst (POST scenario_world (upload cv_pdf) empty_disk) =
       \<lparr>status = 200,
        body = Extracted ''[NAME], Software Engineer'' ''John Doe, Software Engineer''
                 ''cv.pdf'' 8\<rparr>
   \<and> ''[NAME], Software Engineer'' \<noteq> ''[NAME], Software Engineer\<newline>''
   \<and> extraction_worker nul_text_world ''/tmp/temp_1700000000000_cv.pdf'' =
       Closed (Some 0) (''John'' @ [CHR 0x00] @ ''Doe\<newline>'') []
   \<and> removable nul_text_world ''/tmp/temp_1700000000000_cv.pdf''
   \<and> calls nul_text_world (upload cv_pdf) empty_disk =
       [WriteFile ''/tmp/temp_1700000000000_cv.pdf'' (file_content cv_pdf),
        Spawn ''python3'' [''/app/scripts/extract_text.py'', ''/tmp/temp_1700000000000_cv.pdf''],
        Spawn ''python3''
          [''/app/scripts/anonymize_personal_info.py'', ''John'' @ [CHR 0x00] @ ''Doe''],
        Unlink ''/tmp/temp_1700000000000_cv.pdf'']
   \<and> fst (POST nul_text_world (upload cv_pdf) empty_disk) =
       \<lparr>status = 500, body = Message ''Error processing file. Please try again.''\<rparr>"
  by (simp add: handler_defs tempFilePath_cv join_scripts trim_examples trim_def isWhiteSpace_def
      world_defs upload_defs)

text \<open>
  C6, as amended: in a response with status 200, the processed text is empty exactly
  when the anonymization process exits with code 0 and its standard output is empty or
  white space only, or the process fails and the raw text is empty. So a raw text that
  is not empty gives a processed text that is not empty unless the anonymization process
  exits with code 0 and prints nothing but white space.
\<close>

theorem processed_text_empty:
  assumes "fst (POST w req st) = \<lparr>status = 200, body = Extracted t r n s\<rparr>"
  shows "t = [] \<longleftrightarrow>
           (case anonymization_worker w r of
              Closed code output e \<Rightarrow> if code = Some 0 then trim output = [] else r = []
            | SpawnError msg \<Rightarrow> r = [])"
  using assms
  by (auto simp add: POST_response preprocessText_result
      split: sum.splits worker_outcome.splits form_entry.splits if_splits)

theorem processed_text_empty_witness:
  "fst (POST failing_anonymizer_world (upload cv_pdf) empty_disk) =
     \<lparr>status = 200,
      body = Extracted ''John Doe, Software Engineer'' ''John Doe, Software Engineer''
               ''cv.pdf'' 8\<rparr>
   \<and> (''John Doe, Software Engineer'' = [] \<longleftrightarrow>
        (case anonymization_worker failing_anonymizer_world ''John Doe, Software Engineer'' of
           Closed code output e \<Rightarrow>
             if code = Some 0 then trim output = [] else ''John Doe, Software Engineer'' = []
         | SpawnError msg \<Rightarrow> ''John Doe, Software Engineer'' = []))
   \<and> fst (POST silent_anonymizer_world (upload cv_pdf) empty_disk) =
     \<lparr>status = 200, body = Extracted [] ''John Doe, Software Engineer'' ''cv.pdf'' 8\<rparr>
   \<and> ([] = ([] :: string) \<longleftrightarrow>
        (case anonymization_worker silent_anonymizer_world ''John Doe, Software Engineer'' of
           Closed code output e \<Rightarrow>
             if code = Some 0 then trim output = [] else ''John Doe, Software Engineer'' = []
         | SpawnError msg \<Rightarrow> ''John Doe, Software Engineer'' = []))"
proof -
  have r: "fst (POST failing_anonymizer_world (upload cv_pdf) empty_disk) =
     \<lparr>status = 200,
      body = Extracted ''John Doe, Software Engineer'' ''John Doe, Software Engineer''
               ''cv.pdf'' 8\<rparr>"
    by (simp add: handler_defs tempFilePath_cv join_scripts trim_examples world_defs upload_defs)
  have q: "fst (POST silent_anonymizer_world (upload cv_pdf) empty_disk) =
     \<lparr>status = 200, body = Extracted [] ''John Doe, Software Engineer'' ''cv.pdf'' 8\<rparr>"
    by (simp add: handler_defs tempFilePath_cv join_scripts trim_examples world_defs upload_defs)
  from processed_text_empty [OF r] processed_text_empty [OF q] r q show ?thesis by blast
qed

text \<open>
  The claim as first stated fails when the anonymization process exits with code 0 and
  prints nothing: the raw text is not empty and the processed text is.
\<close>

theorem processed_text_empty_counterexample:
  "anonymization_worker silent_anonymizer_world ''John Doe, Software Engineer'' =
     Closed (Some 0) [] []
   \<and> fst (POST silent_anonymizer_world (upload cv_pdf) empty_disk) =
     \<lparr>status = 200, body = Extracted [] ''John Doe, Software Engineer'' ''cv.pdf'' 8\<rparr>"
  by (simp add: handler_defs tempFilePath_cv join_scripts trim_examples world_defs upload_defs)

section \<open>The release of the temporary file\<close>

text \<open>
  C5, as amended: the removal of the temporary file can fail, and its failure is fatal
  to the request. For an upload that passes the checks and whose temporary file is
  written, when the host refuses the removal the answer is 500 with the general
  message, whatever the two workers did, and the file stays where it was written.
\<close>

theorem deletion_failure_fatal:
  assumes "formData req = Inr (FileField f)"
    and "file_type f = ''application/pdf''" and "file_size f \<le> 5 * 1024 * 1024"
    and "writable w (tempFilePath w f)"
    and "\<not> removable w (tempFilePath w f)"
  shows "fst (POST w req st) =
           \<lparr>status = 500, body = Message ''Error processing file. Please try again.''\<rparr>
       \<and> files (snd (POST w req st)) (tempFilePath w f) = Some (file_content f)"
  using assms POST_files [of req f w st]
  by (simp add: POST_response split: worker_outcome.splits)

theorem deletion_failure_fatal_witness:
  "formData (upload cv_pdf) = Inr (FileField cv_pdf)
   \<and> file_type cv_pdf = ''application/pdf'' \<and> file_size cv_pdf \<le> 5 * 1024 * 1024
   \<and> writable no_removal_world (tempFilePath no_removal_world cv_pdf)
   \<and> \<not> removable no_removal_world (tempFilePath no_removal_world cv_pdf)
   \<and> fst (POST no_removal_world (upload cv_pdf) empty_disk) =
       \<lparr>status = 500, body = Message ''Error processing file. Please try again.''\<rparr>
   \<and> files (snd (POST no_removal_world (upload cv_pdf) empty_disk))
         (tempFilePath no_removal_world cv_pdf) = Some (file_content cv_pdf)"
proof -
  have hyps: "formData (upload cv_pdf) = Inr (FileField cv_pdf)"
    "file_type cv_pdf = ''application/pdf''" "file_size cv_pdf \<le> 5 * 1024 * 1024"
    "writable no_removal_world (tempFilePath no_removal_world cv_pdf)"
    "\<not> removable no_removal_world (tempFilePath no_removal_world cv_pdf)"
    by (simp_all add: world_defs upload_defs)
  from deletion_failure_fatal [OF hyps, of empty_disk] hyps
  show ?thesis by simp
qed

text \<open>
  The claim as first stated fails on a host that refuses the removal: extraction and
  anonymization both exit with code 0, and the answer is 500, not 200.
\<close>

theorem deletion_failure_counterexample:
  "extraction_worker no_removal_world ''/tmp/temp_1700000000000_cv.pdf'' =
     Closed (Some 0) ''John Doe, Software Engineer\<newline>'' []
   \<and> anonymization_worker no_removal_world ''John Doe, Software Engineer'' =
     Closed (Some 0) ''[NAME], Software Engineer\<newline>'' []
   \<and> fst (POST no_removal_world (upload cv_pdf) empty_disk) =
       \<lparr>status = 500, body = Message ''Error processing file. Please try again.''\<rparr>"
  by (simp add: handler_defs tempFilePath_cv join_scripts trim_examples world_defs upload_defs)

text \<open>
  C1, as amended: every removal the handler attempts is a removal of the path of its own
  temporary file, and comes after the write of that file has succeeded. When the write
  has succeeded, the removal is attempted at least once on every path through the
  handler, and exactly once when the host allows the removal or the extraction fails.
  The removal is a plain \<open>unlink\<close>: after one has succeeded, another one on the same path
  is rejected.
\<close>

theorem release_discipline:
  "(Unlink q \<in> set (calls w req st) \<longrightarrow>
      (\<exists>f. formData req = Inr (FileField f) \<and> q = tempFilePath w f \<and> writable w q
          \<and> (\<exists>rest. calls w req st = WriteFile q (file_content f) # rest)))
 \<and> (formData req = Inr (FileField g) \<and> file_type g = ''application/pdf''
      \<and> file_size g \<le> 5 * 1024 * 1024 \<and> writable w (tempFilePath w g) \<longrightarrow>
      1 \<le> count_list (calls w req st) (Unlink (tempFilePath w g))
      \<and> (removable w (tempFilePath w g)
           \<or> (\<forall>out err. extraction_worker w (tempFilePath w g) \<noteq> Closed (Some 0) out err) \<longrightarrow>
         count_list (calls w req st) (Unlink (tempFilePath w g)) = 1))
 \<and> (fst (unlink w q st') = Inr () \<longrightarrow>
      fst (unlink w q (snd (unlink w q st'))) = Inl (Error ''ENOENT''))"
proof (intro conjI)
  show "Unlink q \<in> set (calls w req st) \<longrightarrow>
      (\<exists>f. formData req = Inr (FileField f) \<and> q = tempFilePath w f \<and> writable w q
          \<and> (\<exists>rest. calls w req st = WriteFile q (file_content f) # rest))"
  proof
    assume u: "Unlink q \<in> set (calls w req st)"
    then obtain f where f: "formData req = Inr (FileField f)"
      by (cases "formData req") (auto simp add: POST_calls split: form_entry.splits)
    with u have ok: "file_type f = ''application/pdf''" "file_size f \<le> 5 * 1024 * 1024"
      by (auto simp add: POST_calls split: if_splits)
    with u f have wr: "writable w (tempFilePath w f)"
      by (auto simp add: POST_calls split: if_splits)
    with u f ok have "q = tempFilePath w f"
      by (auto simp add: POST_calls split: worker_outcome.splits if_splits)
    with f ok wr
    show "\<exists>f. formData req = Inr (FileField f) \<and> q = tempFilePath w f \<and> writable w q
          \<and> (\<exists>rest. calls w req st = WriteFile q (file_content f) # rest)"
      by (simp add: POST_calls)
  qed
  show "formData req = Inr (FileField g) \<and> file_type g = ''application/pdf''
      \<and> file_size g \<le> 5 * 1024 * 1024 \<and> writable w (tempFilePath w g) \<longrightarrow>
      1 \<le> count_list (calls w req st) (Unlink (tempFilePath w g))
      \<and> (removable w (tempFilePath w g)
           \<or> (\<forall>out err. extraction_worker w (tempFilePath w g) \<noteq> Closed (Some 0) out err) \<longrightarrow>
         count_list (calls w req st) (Unlink (tempFilePath w g)) = 1)"
    by (auto simp add: POST_calls split: worker_outcome.splits)
  show "fst (unlink w q st') = Inr () \<longrightarrow>
      fst (unlink w q (snd (unlink w q st'))) = Inl (Error ''ENOENT'')"
    by (simp add: unlink_def emit_def Let_def)
qed

theorem release_discipline_witness:
  "Unlink ''/tmp/temp_1700000000000_cv.pdf''
     \<in> set (calls scenario_world (upload cv_pdf) empty_disk)
   \<and> formData (upload cv_pdf) = Inr (FileField cv_pdf)
   \<and> file_type cv_pdf = ''application/pdf'' \<and> file_size cv_pdf \<le> 5 * 1024 * 1024
   \<and> writable scenario_world (tempFilePath scenario_world cv_pdf)
   \<and> removable scenario_world (tempFilePath scenario_world cv_pdf)
   \<and> fst (unlink scenario_world ''/tmp/temp_1700000000000_cv.pdf''
        (snd (writeFile scenario_world ''/tmp/temp_1700000000000_cv.pdf''
           (file_content cv_pdf) empty_disk))) = Inr ()
   \<and> (\<exists>rest. calls scenario_world (upload cv_pdf) empty_disk =
         WriteFile ''/tmp/temp_1700000000000_cv.pdf'' (file_content cv_pdf) # rest)
   \<and> count_list (calls scenario_world (upload cv_pdf) empty_disk)
       (Unlink ''/tmp/temp_1700000000000_cv.pdf'') = 1
   \<and> fst (unlink scenario_world ''/tmp/temp_1700000000000_cv.pdf''
        (snd (unlink scenario_world ''/tmp/temp_1700000000000_cv.pdf''
           (snd (writeFile scenario_world ''/tmp/temp_1700000000000_cv.pdf''
              (file_content cv_pdf) empty_disk))))) = Inl (Error ''ENOENT'')"
proof -
  have path: "tempFilePath scenario_world cv_pdf = ''/tmp/temp_1700000000000_cv.pdf''"
    by (rule tempFilePath_cv) (simp_all add: world_defs cv_pdf_def)
  have u: "Unlink ''/tmp/temp_1700000000000_cv.pdf''
      \<in> set (calls scenario_world (upload cv_pdf) empty_disk)"
    by (simp add: handler_defs tempFilePath_cv join_scripts trim_examples world_defs upload_defs)
  have hyps: "formData (upload cv_pdf) = Inr (FileField cv_pdf)"
    "file_type cv_pdf = ''application/pdf''" "file_size cv_pdf \<le> 5 * 1024 * 1024"
    "writable scenario_world (tempFilePath scenario_world cv_pdf)"
    "removable scenario_world (tempFilePath scenario_world cv_pdf)"
    by (simp_all add: world_defs upload_defs)
  have first: "fst (unlink scenario_world ''/tmp/temp_1700000000000_cv.pdf''
        (snd (writeFile scenario_world ''/tmp/temp_1700000000000_cv.pdf''
           (file_content cv_pdf) empty_disk))) = Inr ()"
    by (simp add: handler_defs world_defs upload_defs)
  from release_discipline [of "''/tmp/temp_1700000000000_cv.pdf''" scenario_world
      "upload cv_pdf" empty_disk cv_pdf
      "snd (writeFile scenario_world ''/tmp/temp_1700000000000_cv.pdf''
           (file_content cv_pdf) empty_disk)"] u hyps first
  show ?thesis by (auto simp add: path)
qed

text \<open>
  The claim as first stated fails on a host that refuses the removal: the write of the
  temporary file succeeds, both workers exit with code 0, and the handler attempts the
  removal twice, once in the body of the inner \<open>try\<close> and once in its \<open>catch\<close>.
\<close>

theorem release_counterexample:
  "formData (upload cv_pdf) = Inr (FileField cv_pdf)
   \<and> writable no_removal_world ''/tmp/temp_1700000000000_cv.pdf''
   \<and> calls no_removal_world (upload cv_pdf) empty_disk =
       [WriteFile ''/tmp/temp_1700000000000_cv.pdf'' (file_content cv_pdf),
        Spawn ''python3'' [''/app/scripts/extract_text.py'', ''/tmp/temp_1700000000000_cv.pdf''],
        Spawn ''python3''
          [''/app/scripts/anonymize_personal_info.py'', ''John Doe, Software Engineer''],
        Unlink ''/tmp/temp_1700000000000_cv.pdf'',
        Unlink ''/tmp/temp_1700000000000_cv.pdf'']
   \<and> count_list (calls no_removal_world (upload cv_pdf) empty_disk)
       (Unlink ''/tmp/temp_1700000000000_cv.pdf'') = 2"
  by (simp add: handler_defs tempFilePath_cv join_scripts trim_examples world_defs upload_defs)

end
